theory Spec2Isabelle
  imports Complex_Main
begin

section \<open>The induction visualizer of \<^verbatim>\<open>src/App.js\<close>\<close>

text \<open>
  The repository is one React Native component, \<^verbatim>\<open>App\<close>. Its state is five numbers,
  its behaviour is four callbacks (the flux effect, the EMF timer tick, the mount effect with
  its motion listener, the slider handler) and one render function.

  JavaScript numbers are IEEE-754 doubles. The embedding reads them as \<^typ>\<open>real\<close>:
  \<^verbatim>\<open>Math.cos\<close> is \<^const>\<open>cos\<close>, \<^verbatim>\<open>Math.PI\<close> is \<^const>\<open>pi\<close>,
  \<^verbatim>\<open>Math.abs\<close> is \<^const>\<open>abs\<close>, and the arithmetic is exact. Every formula below is
  the source's expression, operator by operator and in the source's order; rounding is the one
  thing left out.
\<close>

subsection \<open>Constants and state (lines 10 to 21)\<close>

definition screenWidthMeters :: real where
  "screenWidthMeters = 0.0709"

definition screenHeightMeters :: real where
  "screenHeightMeters = 0.1436"

definition phoneArea :: real where
  "phoneArea = screenWidthMeters * screenHeightMeters"

text \<open>The five \<^verbatim>\<open>useState\<close> cells, with the names of the source.\<close>

record app_state =
  theta :: real
  fieldStrength :: real
  phi :: real
  emf :: real
  prevPhi :: real

definition initial_state :: app_state where
  "initial_state = \<lparr>theta = 0, fieldStrength = 1, phi = 0, emf = 0, prevPhi = 0\<rparr>"

subsection \<open>Derived values of a render (lines 25 to 34)\<close>

definition outOfScreen :: "real \<Rightarrow> bool" where
  "outOfScreen th = (th \<ge> 80)"

definition intoScreen :: "real \<Rightarrow> bool" where
  "intoScreen th = (th \<le> - 80)"

definition arrowHeight :: "real \<Rightarrow> real" where
  "arrowHeight th =
     (if intoScreen th \<or> outOfScreen th then 40 else (\<bar>90 - th\<bar> / 90) * 40)"

definition calculateFlux :: "real \<Rightarrow> real \<Rightarrow> real \<Rightarrow> real" where
  "calculateFlux B A rads = B * A * cos (((rads - 90) * pi) / 180)"

subsection \<open>The flux effect and the EMF tick (lines 37 to 49)\<close>

text \<open>
  \<^verbatim>\<open>setPhi(calculateFlux(fieldStrength, phoneArea, theta))\<close>: the body of the effect whose
  dependencies are \<^verbatim>\<open>[fieldStrength, theta]\<close>.
\<close>

definition flux_effect :: "app_state \<Rightarrow> app_state" where
  "flux_effect s = s\<lparr>phi := calculateFlux (fieldStrength s) phoneArea (theta s)\<rparr>"

text \<open>
  \<^verbatim>\<open>calculateEmf\<close> reads \<^verbatim>\<open>phi\<close> and \<^verbatim>\<open>prevPhi\<close> of the render it was created in and
  queues two state updates.
\<close>

definition calculateEmf :: "app_state \<Rightarrow> app_state" where
  "calculateEmf s =
     (let deltaPhi = phi s - prevPhi s;
          deltaT = 1
      in s\<lparr>emf := - 1 * 10 * (deltaPhi / deltaT), prevPhi := phi s\<rparr>)"

subsection \<open>The style of a glyph cell (lines 146 to 151)\<close>

record cell_style =
  height :: real
  marginVertical :: real
  marginHorizontal :: "real option"
  paddingHorizontal :: real
  opacity :: real

text \<open>\<^verbatim>\<open>undefined\<close> for \<^verbatim>\<open>marginHorizontal\<close> is \<^const>\<open>None\<close>.\<close>

definition glyph_cell_style :: "app_state \<Rightarrow> cell_style" where
  "glyph_cell_style s =
     \<lparr>height = (if intoScreen (theta s) \<or> outOfScreen (theta s) then 20
                else arrowHeight (theta s)),
      marginVertical = (if intoScreen (theta s) \<or> outOfScreen (theta s) then 10
                        else (40 - arrowHeight (theta s)) / 2),
      marginHorizontal = (if intoScreen (theta s) \<or> outOfScreen (theta s) then Some 10
                          else None),
      paddingHorizontal = 15,
      opacity = fieldStrength s / 10\<rparr>"

text \<open>Height of the cell plus its margin above and its margin below.\<close>

definition vertical_extent :: "cell_style \<Rightarrow> real" where
  "vertical_extent c = height c + 2 * marginVertical c"

subsection \<open>The rendered tree (lines 112 to 165)\<close>

text \<open>
  Only the two parts of the tree that depend on the state are modelled: the EMF indicator row
  and the field-line grid. An \<^verbatim>\<open>Entypo\<close> icon carries its name, size and colour. The
  label \<^verbatim>\<open>`E = ${emf.toFixed(5)} V`\<close> is kept as the number it prints. A child
  \<^verbatim>\<open>{cond && (...)}\<close> whose condition is false renders nothing, so it is absent from
  the list of children.
\<close>

datatype element =
    Entypo string nat string
  | EmfText real
  | GlyphView cell_style element
  | SpacerView real

definition indicator_row :: "app_state \<Rightarrow> element list" where
  "indicator_row s =
     (if emf s > 0 then [Entypo ''arrow-long-left'' 20 ''red''] else [])
     @ [EmfText (emf s)]
     @ (if emf s < 0 then [Entypo ''arrow-long-right'' 20 ''red''] else [])"

definition glyph :: "real \<Rightarrow> element" where
  "glyph th =
     Entypo
       (if outOfScreen th then ''circle''
        else if intoScreen th then ''circle-with-cross''
        else ''arrow-long-down'')
       (if outOfScreen th \<or> intoScreen th then 20 else 40)
       ''blue''"

text \<open>The callback of \<^verbatim>\<open>new Array(50).fill(0).map((_, index) => ...)\<close>.\<close>

definition slot :: "app_state \<Rightarrow> nat \<Rightarrow> element" where
  "slot s index =
     (if index mod 2 = 0 then GlyphView (glyph_cell_style s) (glyph (theta s))
      else SpacerView 60)"

definition field_line_grid :: "app_state \<Rightarrow> element list" where
  "field_line_grid s = map (slot s) [0..<50]"

fun is_glyph_cell :: "element \<Rightarrow> bool" where
  "is_glyph_cell (GlyphView c g) = True"
| "is_glyph_cell e = False"

subsection \<open>The motion listener (lines 83 to 90)\<close>

text \<open>
  A motion event carries \<^verbatim>\<open>data.rotation.beta\<close>. Reading \<^verbatim>\<open>.beta\<close> of a missing
  \<^verbatim>\<open>rotation\<close> throws a \<^verbatim>\<open>TypeError\<close>; the source has no guard.
\<close>

datatype error = TypeError

record rotation =
  beta :: real

record motion_data =
  rotation :: "rotation option"

text \<open>
  The listener is an arrow function created inside the mount effect. The \<^verbatim>\<open>theta\<close> it
  mentions is the constant of the render in which that effect ran: the parameter
  \<open>theta_seen\<close>. The state it writes with \<^verbatim>\<open>setTheta\<close> is the current one.
\<close>

definition motion_listener :: "real \<Rightarrow> motion_data \<Rightarrow> app_state \<Rightarrow> error + app_state" where
  "motion_listener theta_seen data s =
     (case rotation data of
        None \<Rightarrow> Inl TypeError
      | Some r \<Rightarrow>
          (let angle = (beta r * 180) / pi
           in if \<bar>theta_seen - angle\<bar> \<ge> 1 then Inr (s\<lparr>theta := angle\<rparr>) else Inr s))"

subsection \<open>The screen and its events (lines 37 to 39, 52 to 99, 172 to 174)\<close>

text \<open>
  Around the five state cells the screen holds: \<open>subscriber\<close>, the variable of the mount
  effect (\<^verbatim>\<open>null\<close>, or the subscription of a listener, identified by the \<^verbatim>\<open>theta\<close> that
  listener saw); whether the promise of \<^verbatim>\<open>isAvailableAsync\<close> is still pending; the calls
  made so far on \<^verbatim>\<open>DeviceMotion\<close> and on the subscription; and how often the body of the
  flux effect has run.
\<close>

datatype sensor_call = IsAvailableAsync | SetUpdateInterval nat | AddListener | Remove

record screen =
  state :: app_state
  subscriber :: "real option"
  pending :: bool
  sensor_calls :: "sensor_call list"
  flux_runs :: nat

text \<open>
  The first render and its effects: the flux effect runs once, the mount effect sets
  \<^verbatim>\<open>subscriber = null\<close> and asks for the sensor's availability.
\<close>

definition mount :: screen where
  "mount =
     \<lparr>state = flux_effect initial_state, subscriber = None, pending = True,
      sensor_calls = [IsAvailableAsync], flux_runs = 1\<rparr>"

text \<open>
  A state update followed by its render: the flux effect runs again when one of its
  dependencies \<^verbatim>\<open>[fieldStrength, theta]\<close> has changed, and not otherwise.
\<close>

definition commit :: "app_state \<Rightarrow> screen \<Rightarrow> screen" where
  "commit s' scr =
     (if fieldStrength s' \<noteq> fieldStrength (state scr) \<or> theta s' \<noteq> theta (state scr)
      then scr\<lparr>state := flux_effect s', flux_runs := Suc (flux_runs scr)\<rparr>
      else scr\<lparr>state := s'\<rparr>)"

text \<open>
  What can happen to a mounted screen. The promise resolves with the platform's answer
  \<open>isAvailable\<close>, once. A motion update reaches the listener only if one is registered.
  The interval calls \<^verbatim>\<open>savedCallback.current\<close>, which every render sets to its own
  \<^verbatim>\<open>calculateEmf\<close>, so the tick reads the current state. The slider calls
  \<^verbatim>\<open>setFieldStrength\<close>.
\<close>

datatype event =
    AvailabilityResolved
  | DeviceMotionUpdate motion_data
  | IntervalTick
  | SliderValueChange real

fun step :: "bool \<Rightarrow> screen \<Rightarrow> event \<Rightarrow> error + screen" where
  "step isAvailable scr AvailabilityResolved =
     Inr (if pending scr then
            (if isAvailable
             then scr\<lparr>subscriber := Some (theta initial_state), pending := False,
                       sensor_calls := sensor_calls scr @ [SetUpdateInterval 500, AddListener]\<rparr>
             else scr\<lparr>pending := False\<rparr>)
          else scr)"
| "step isAvailable scr (DeviceMotionUpdate data) =
     (case subscriber scr of
        None \<Rightarrow> Inr scr
      | Some theta_seen \<Rightarrow>
          (case motion_listener theta_seen data (state scr) of
             Inl err \<Rightarrow> Inl err
           | Inr s' \<Rightarrow> Inr (commit s' scr)))"
| "step isAvailable scr IntervalTick = Inr (commit (calculateEmf (state scr)) scr)"
| "step isAvailable scr (SliderValueChange v) =
     Inr (commit ((state scr)\<lparr>fieldStrength := v\<rparr>) scr)"

fun run :: "bool \<Rightarrow> screen \<Rightarrow> event list \<Rightarrow> error + screen" where
  "run isAvailable scr [] = Inr scr"
| "run isAvailable scr (e # es) =
     (case step isAvailable scr e of
        Inl err \<Rightarrow> Inl err
      | Inr scr' \<Rightarrow> run isAvailable scr' es)"

text \<open>The cleanup of the mount effect: \<^verbatim>\<open>if (subscriber) subscriber.remove()\<close>.\<close>

definition unmount :: "screen \<Rightarrow> screen" where
  "unmount scr =
     (case subscriber scr of
        None \<Rightarrow> scr
      | Some l \<Rightarrow> scr\<lparr>sensor_calls := sensor_calls scr @ [Remove]\<rparr>)"

text \<open>Mount, any events, unmount.\<close>

definition lifetime :: "bool \<Rightarrow> event list \<Rightarrow> error + screen" where
  "lifetime isAvailable es =
     (case run isAvailable mount es of
        Inl err \<Rightarrow> Inl err
      | Inr scr \<Rightarrow> Inr (unmount scr))"

section \<open>Flux and EMF\<close>

lemma phoneArea_value: "phoneArea = 0.01018124"
  by (simp add: phoneArea_def screenWidthMeters_def screenHeightMeters_def)

text \<open>
  Claim C1. For every field strength \<open>B\<close>, area \<open>A\<close> and angle in degrees \<open>d\<close>,
  \<^verbatim>\<open>calculateFlux(B, A, d)\<close> returns \<open>B * A * cos (((d - 90) * pi) / 180)\<close>; with \<open>B = 1\<close>, the
  coil area \<open>0.0709 * 0.1436 = 0.01018124\<close> and \<open>d = 90\<close> the result is the area. The flux
  effect stores exactly that value for the state's field strength and tilt angle.
\<close>

theorem calculateFlux_formula:
  "calculateFlux B A d = B * A * cos (((d - 90) * pi) / 180)
   \<and> phoneArea = 0.0709 * 0.1436
   \<and> phoneArea = 0.01018124
   \<and> calculateFlux 1 phoneArea 90 = phoneArea
   \<and> calculateFlux 1 phoneArea 90 = 0.01018124
   \<and> phi (flux_effect s)
       = fieldStrength s * 0.01018124 * cos (((theta s - 90) * pi) / 180)"
  by (simp add: calculateFlux_def flux_effect_def phoneArea_value)

text \<open>
  Claim C2. On every EMF sampling tick, with stored flux \<open>phi\<close> and stored previous flux
  \<open>prevPhi\<close> at the start of the tick, the new stored EMF is \<open>- 1 * 10 * ((phi - prevPhi) / 1)\<close>
  and the stored previous flux becomes the \<open>phi\<close> used in that computation. The tick does
  not fail and leaves the flux itself as it was.
\<close>

theorem tick_emf:
  "\<exists>scr'. step isAvailable scr IntervalTick = Inr scr'
     \<and> emf (state scr') = - 1 * 10 * ((phi (state scr) - prevPhi (state scr)) / 1)
     \<and> prevPhi (state scr') = phi (state scr)
     \<and> phi (state scr') = phi (state scr)"
  by (simp add: commit_def calculateEmf_def)

theorem tick_emf_witness:
  "\<exists>scr'. step True (mount\<lparr>state := \<lparr>theta = 0, fieldStrength = 1, phi = 2 / 100, emf = 0,
                                       prevPhi = 1 / 100\<rparr>\<rparr>) IntervalTick = Inr scr'
     \<and> emf (state scr') = - (1 / 10)
     \<and> prevPhi (state scr') = 2 / 100
     \<and> phi (state scr') = 2 / 100"
  using tick_emf [of True "mount\<lparr>state := \<lparr>theta = 0, fieldStrength = 1, phi = 2 / 100,
                                          emf = 0, prevPhi = 1 / 100\<rparr>\<rparr>"]
  by simp

section \<open>Arrow height and cell extent\<close>

lemma arrowHeight_inner:
  "- 80 < th \<Longrightarrow> th < 80 \<Longrightarrow> arrowHeight th = (\<bar>90 - th\<bar> / 90) * 40"
  by (simp add: arrowHeight_def intoScreen_def outOfScreen_def)

text \<open>
  Claim C7. For every tilt angle, the height of a glyph cell plus twice its vertical margin
  is 40: at the extremes the height is 20 and the margin 10, otherwise the height is
  \<open>arrowHeight\<close> and the margin \<open>(40 - arrowHeight) / 2\<close>.
\<close>

theorem cell_extent_40:
  "vertical_extent (glyph_cell_style s) = 40
   \<and> (if theta s \<ge> 80 \<or> theta s \<le> - 80
      then height (glyph_cell_style s) = 20 \<and> marginVertical (glyph_cell_style s) = 10
      else height (glyph_cell_style s) = arrowHeight (theta s)
         \<and> marginVertical (glyph_cell_style s) = (40 - arrowHeight (theta s)) / 2)"
proof (cases "intoScreen (theta s) \<or> outOfScreen (theta s)")
  case True
  then show ?thesis
    by (auto simp add: vertical_extent_def glyph_cell_style_def intoScreen_def outOfScreen_def)
next
  case False
  have "arrowHeight (theta s) + 2 * ((40 - arrowHeight (theta s)) / 2) = 40"
    by (simp add: field_simps)
  with False show ?thesis
    by (auto simp add: vertical_extent_def glyph_cell_style_def intoScreen_def outOfScreen_def)
qed

theorem cell_extent_40_witness:
  "vertical_extent (glyph_cell_style (initial_state\<lparr>theta := 60\<rparr>)) = 40
   \<and> height (glyph_cell_style (initial_state\<lparr>theta := 60\<rparr>)) = 40 / 3
   \<and> marginVertical (glyph_cell_style (initial_state\<lparr>theta := 60\<rparr>)) = 40 / 3
   \<and> vertical_extent (glyph_cell_style (initial_state\<lparr>theta := 85\<rparr>)) = 40
   \<and> height (glyph_cell_style (initial_state\<lparr>theta := 85\<rparr>)) = 20
   \<and> marginVertical (glyph_cell_style (initial_state\<lparr>theta := 85\<rparr>)) = 10"
  using cell_extent_40 [of "initial_state\<lparr>theta := 60\<rparr>"]
        cell_extent_40 [of "initial_state\<lparr>theta := 85\<rparr>"]
  by (simp add: arrowHeight_def intoScreen_def outOfScreen_def)

text \<open>
  Claim C10. For every tilt angle strictly between \<open>- 80\<close> and \<open>0\<close>, the arrow height
  \<open>(\<bar>90 - \<theta>\<bar> / 90) * 40\<close> of the cell is above 40 and below \<open>170 / 90 * 40\<close> (about 75.6), the
  vertical margin \<open>(40 - arrowHeight) / 2\<close> is negative, and the cell's vertical extent is
  still 40.
\<close>

theorem negative_tilt_overshoot:
  assumes "- 80 < theta s" and "theta s < 0"
  shows "height (glyph_cell_style s) = (\<bar>90 - theta s\<bar> / 90) * 40
       \<and> 40 < height (glyph_cell_style s)
       \<and> height (glyph_cell_style s) < 170 / 90 * 40
       \<and> marginVertical (glyph_cell_style s) = (40 - arrowHeight (theta s)) / 2
       \<and> marginVertical (glyph_cell_style s) < 0
       \<and> vertical_extent (glyph_cell_style s) = 40"
proof -
  from assms have inner: "\<not> (intoScreen (theta s) \<or> outOfScreen (theta s))"
    by (simp add: intoScreen_def outOfScreen_def)
  from assms have ah: "arrowHeight (theta s) = (90 - theta s) / 90 * 40"
    by (simp add: arrowHeight_inner)
  have h: "height (glyph_cell_style s) = arrowHeight (theta s)"
    using inner by (simp add: glyph_cell_style_def)
  have m: "marginVertical (glyph_cell_style s) = (40 - arrowHeight (theta s)) / 2"
    using inner by (simp add: glyph_cell_style_def)
  have lo: "40 < arrowHeight (theta s)" and hi: "arrowHeight (theta s) < 170 / 90 * 40"
    using assms by (simp_all add: ah)
  have formula: "height (glyph_cell_style s) = (\<bar>90 - theta s\<bar> / 90) * 40"
    using assms by (simp add: h arrowHeight_inner)
  have neg: "marginVertical (glyph_cell_style s) < 0"
    using lo by (simp add: m)
  have ext: "vertical_extent (glyph_cell_style s) = 40"
    by (simp add: vertical_extent_def h m field_simps)
  from formula lo hi m neg ext show ?thesis
    by (simp only: h simp_thms)
qed

theorem negative_tilt_overshoot_witness:
  "height (glyph_cell_style (initial_state\<lparr>theta := - 45\<rparr>)) = 60
   \<and> marginVertical (glyph_cell_style (initial_state\<lparr>theta := - 45\<rparr>)) = - 10
   \<and> vertical_extent (glyph_cell_style (initial_state\<lparr>theta := - 45\<rparr>)) = 40"
  using negative_tilt_overshoot [of "initial_state\<lparr>theta := - 45\<rparr>"]
  by (simp add: arrowHeight_def intoScreen_def outOfScreen_def)

text \<open>
  Claim C6, as amended. For every tilt angle strictly between \<open>- 80\<close> and \<open>80\<close> the arrow height
  is \<open>(\<bar>90 - \<theta>\<bar> / 90) * 40\<close>, and between two such angles the one farther from 90 degrees
  has the greater height: the height grows with the distance from the 90-degree reference
  and shrinks as the device rotates towards it.
\<close>

theorem arrowHeight_grows_with_distance:
  assumes "- 80 < th1" and "th1 < 80" and "- 80 < th2" and "th2 < 80"
  shows "arrowHeight th1 = (\<bar>90 - th1\<bar> / 90) * 40
       \<and> (\<bar>90 - th1\<bar> \<le> \<bar>90 - th2\<bar> \<longrightarrow> arrowHeight th1 \<le> arrowHeight th2)
       \<and> (\<bar>90 - th1\<bar> < \<bar>90 - th2\<bar> \<longrightarrow> arrowHeight th1 < arrowHeight th2)"
  using assms by (simp add: arrowHeight_inner)

theorem arrowHeight_grows_with_distance_witness:
  "arrowHeight 45 = 20 \<and> arrowHeight 0 = 40 \<and> arrowHeight 45 \<le> arrowHeight 0
   \<and> arrowHeight 45 < arrowHeight 0"
  using arrowHeight_grows_with_distance [of 45 0]
  by (simp add: arrowHeight_inner)

text \<open>
  The claim as it was written has the height decrease with the distance from 90 degrees. At 0
  degrees (distance 90) the height is 40, at 45 degrees (distance 45) it is 20.
\<close>

theorem arrowHeight_decreasing_counterexample:
  "\<not> (\<bar>90 - (45::real)\<bar> \<le> \<bar>90 - 0\<bar> \<longrightarrow> arrowHeight 0 \<le> arrowHeight 45)"
  by (simp add: arrowHeight_def intoScreen_def outOfScreen_def)

section \<open>The rendered tree\<close>

text \<open>
  Claim C4. For every stored EMF value the indicator row is one of three lists of children:
  above zero the left arrow and then the label, below zero the label and then the right
  arrow, at zero the label alone.
\<close>

theorem indicator_row_cases:
  "(emf s > 0 \<longrightarrow>
      indicator_row s = [Entypo ''arrow-long-left'' 20 ''red'', EmfText (emf s)])
   \<and> (emf s < 0 \<longrightarrow>
      indicator_row s = [EmfText (emf s), Entypo ''arrow-long-right'' 20 ''red''])
   \<and> (emf s = 0 \<longrightarrow> indicator_row s = [EmfText (emf s)])"
  by (simp add: indicator_row_def)

theorem indicator_row_cases_witness:
  "indicator_row (initial_state\<lparr>emf := 1 / 10\<rparr>)
     = [Entypo ''arrow-long-left'' 20 ''red'', EmfText (1 / 10)]
   \<and> indicator_row (initial_state\<lparr>emf := - (1 / 10)\<rparr>)
     = [EmfText (- (1 / 10)), Entypo ''arrow-long-right'' 20 ''red'']
   \<and> indicator_row initial_state = [EmfText 0]"
  using indicator_row_cases [of "initial_state\<lparr>emf := 1 / 10\<rparr>"]
        indicator_row_cases [of "initial_state\<lparr>emf := - (1 / 10)\<rparr>"]
        indicator_row_cases [of initial_state]
  by (simp add: initial_state_def)

lemma grid_length: "length (field_line_grid s) = 50"
  by (simp add: field_line_grid_def)

lemma grid_nth: "i < 50 \<Longrightarrow> field_line_grid s ! i = slot s i"
  by (simp add: field_line_grid_def del: upt_Suc)

text \<open>
  Claim C5. For every tilt angle the glyph of a cell is chosen by the thresholds: at 80 or
  more the circle of size 20, else at \<open>- 80\<close> or less the circle with cross of size 20, else the
  long down arrow of size 40; 79.999 gives the arrow and 80 the circle. Every even-indexed
  slot of the grid holds this glyph.
\<close>

theorem glyph_thresholds:
  "(th \<ge> 80 \<longrightarrow> glyph th = Entypo ''circle'' 20 ''blue'')
   \<and> (\<not> th \<ge> 80 \<and> th \<le> - 80 \<longrightarrow> glyph th = Entypo ''circle-with-cross'' 20 ''blue'')
   \<and> (\<not> th \<ge> 80 \<and> \<not> th \<le> - 80 \<longrightarrow> glyph th = Entypo ''arrow-long-down'' 40 ''blue'')
   \<and> glyph 79.999 = Entypo ''arrow-long-down'' 40 ''blue''
   \<and> glyph 80 = Entypo ''circle'' 20 ''blue''
   \<and> (\<forall>i<50. i mod 2 = 0 \<longrightarrow>
        field_line_grid (s\<lparr>theta := th\<rparr>) ! i
          = GlyphView (glyph_cell_style (s\<lparr>theta := th\<rparr>)) (glyph th))"
  by (simp add: glyph_def outOfScreen_def intoScreen_def grid_nth slot_def)

theorem glyph_thresholds_witness:
  "glyph 85 = Entypo ''circle'' 20 ''blue''
   \<and> glyph (- 80) = Entypo ''circle-with-cross'' 20 ''blue''
   \<and> glyph 0 = Entypo ''arrow-long-down'' 40 ''blue''
   \<and> field_line_grid initial_state ! 4
       = GlyphView (glyph_cell_style initial_state) (Entypo ''arrow-long-down'' 40 ''blue'')"
  using glyph_thresholds [of 85 initial_state] glyph_thresholds [of "- 80" initial_state]
        glyph_thresholds [of 0 initial_state]
  by (simp add: initial_state_def)

lemma even_indices_upto: "length (filter (\<lambda>i. i mod 2 = 0) [0..<2 * n]) = n"
  by (induction n) simp_all

lemma odd_indices_upto: "length (filter (\<lambda>i. i mod 2 \<noteq> 0) [0..<2 * n]) = n"
  by (induction n) simp_all

lemma slot_is_glyph_cell: "is_glyph_cell (slot s i) = (i mod 2 = 0)"
  by (simp add: slot_def)

lemma slot_is_spacer: "(slot s i = SpacerView 60) = (i mod 2 \<noteq> 0)"
  by (simp add: slot_def)

lemma grid_glyph_count: "length (filter is_glyph_cell (field_line_grid s)) = 25"
proof -
  have "length (filter is_glyph_cell (field_line_grid s))
      = length (filter (\<lambda>i. i mod 2 = 0) [0..<2 * 25])"
    by (simp add: field_line_grid_def filter_map comp_def slot_is_glyph_cell del: upt_Suc)
  then show ?thesis
    by (simp only: even_indices_upto)
qed

lemma grid_spacer_count:
  "length (filter (\<lambda>e. e = SpacerView 60) (field_line_grid s)) = 25"
proof -
  have "length (filter (\<lambda>e. e = SpacerView 60) (field_line_grid s))
      = length (filter (\<lambda>i. i mod 2 \<noteq> 0) [0..<2 * 25])"
    by (simp add: field_line_grid_def filter_map comp_def slot_is_spacer del: upt_Suc)
  then show ?thesis
    by (simp only: odd_indices_upto)
qed

text \<open>
  Claim C9. Whatever the state, the field-line grid has exactly 50 slots; each of the
  even-indexed slots is a glyph cell and each of the odd-indexed slots is an empty spacer of
  width 60; there are 25 of each.
\<close>

theorem grid_composition:
  "length (field_line_grid s) = 50
   \<and> (\<forall>i<50. (i mod 2 = 0 \<longrightarrow>
                 field_line_grid s ! i = GlyphView (glyph_cell_style s) (glyph (theta s)))
            \<and> (i mod 2 \<noteq> 0 \<longrightarrow> field_line_grid s ! i = SpacerView 60))
   \<and> length (filter is_glyph_cell (field_line_grid s)) = 25
   \<and> length (filter (\<lambda>e. e = SpacerView 60) (field_line_grid s)) = 25"
  by (simp add: grid_length grid_nth grid_glyph_count grid_spacer_count slot_def)

theorem grid_composition_witness:
  "length (field_line_grid initial_state) = 50
   \<and> is_glyph_cell (field_line_grid initial_state ! 48)
   \<and> field_line_grid initial_state ! 49 = SpacerView 60
   \<and> length (filter is_glyph_cell (field_line_grid initial_state)) = 25
   \<and> length (filter (\<lambda>e. e = SpacerView 60) (field_line_grid initial_state)) = 25"
  using grid_composition [of initial_state]
  by simp

section \<open>The motion sensor\<close>

lemma commit_same: "commit (state scr) scr = scr"
  by (simp add: commit_def)

lemma commit_keeps:
  "subscriber (commit s' scr) = subscriber scr
   \<and> sensor_calls (commit s' scr) = sensor_calls scr
   \<and> pending (commit s' scr) = pending scr
   \<and> theta (state (commit s' scr)) = theta s'"
  by (simp add: commit_def flux_effect_def)

lemma step_without_sensor:
  assumes "subscriber scr = None" and "theta (state scr) = 0"
    and "sensor_calls scr = [IsAvailableAsync]"
  shows "\<exists>scr'. step False scr e = Inr scr' \<and> subscriber scr' = None
           \<and> theta (state scr') = 0 \<and> sensor_calls scr' = [IsAvailableAsync]"
  using assms by (cases e) (simp_all add: commit_keeps calculateEmf_def)

lemma run_without_sensor:
  assumes "subscriber scr = None" and "theta (state scr) = 0"
    and "sensor_calls scr = [IsAvailableAsync]"
  shows "\<exists>scr'. run False scr es = Inr scr' \<and> subscriber scr' = None
           \<and> theta (state scr') = 0 \<and> sensor_calls scr' = [IsAvailableAsync]"
  using assms
proof (induction es arbitrary: scr)
  case Nil
  then show ?case by simp
next
  case (Cons e es)
  from step_without_sensor [OF Cons.prems, of e] obtain scr1 where
    s1: "step False scr e = Inr scr1" and inv: "subscriber scr1 = None"
      "theta (state scr1) = 0" "sensor_calls scr1 = [IsAvailableAsync]"
    by blast
  from Cons.IH [OF inv] s1 show ?case by simp
qed

text \<open>
  Claim C8. When the platform reports the motion sensor as unavailable, then whatever events
  follow the mount (motion updates, well-formed or not, ticks, slider changes, the promise
  resolving early or late), the run ends without an error, the tilt angle is still 0, no
  listener is registered, and the unmount makes no call: the only call ever made is the
  availability query, so no listener is removed.
\<close>

theorem sensor_unavailable:
  "\<exists>scr. run False mount es = Inr scr
     \<and> theta (state scr) = 0
     \<and> subscriber scr = None
     \<and> lifetime False es = Inr scr
     \<and> sensor_calls scr = [IsAvailableAsync]
     \<and> Remove \<notin> set (sensor_calls scr)"
proof -
  have "subscriber mount = None" "theta (state mount) = 0"
    "sensor_calls mount = [IsAvailableAsync]"
    by (simp_all add: mount_def flux_effect_def initial_state_def)
  from run_without_sensor [OF this, of es] obtain scr where
    r: "run False mount es = Inr scr" and inv: "subscriber scr = None"
      "theta (state scr) = 0" "sensor_calls scr = [IsAvailableAsync]"
    by blast
  have "lifetime False es = Inr scr"
    by (simp add: lifetime_def r unmount_def inv)
  with r inv show ?thesis by simp
qed

theorem sensor_unavailable_witness:
  "\<exists>scr. lifetime False
            [DeviceMotionUpdate \<lparr>rotation = Some \<lparr>beta = 1\<rparr>\<rparr>, AvailabilityResolved,
             DeviceMotionUpdate \<lparr>rotation = None\<rparr>, IntervalTick, SliderValueChange 5,
             DeviceMotionUpdate \<lparr>rotation = Some \<lparr>beta = 1\<rparr>\<rparr>] = Inr scr
     \<and> theta (state scr) = 0
     \<and> fieldStrength (state scr) = 5
     \<and> sensor_calls scr = [IsAvailableAsync]"
  using sensor_unavailable
    [of "[DeviceMotionUpdate \<lparr>rotation = Some \<lparr>beta = 1\<rparr>\<rparr>, AvailabilityResolved,
          DeviceMotionUpdate \<lparr>rotation = None\<rparr>, IntervalTick, SliderValueChange 5,
          DeviceMotionUpdate \<lparr>rotation = Some \<lparr>beta = 1\<rparr>\<rparr>]"]
  by (auto simp add: lifetime_def mount_def commit_def flux_effect_def calculateEmf_def
      initial_state_def unmount_def)

text \<open>
  What the listener does. The subscription a run from \<open>mount\<close> registers always carries the
  \<^verbatim>\<open>theta\<close> of the first render, which is 0, and the listener compares the new angle with
  that value.
\<close>

lemma step_subscriber:
  assumes "step isAvailable scr e = Inr scr'"
    and "subscriber scr = None \<or> subscriber scr = Some 0"
  shows "subscriber scr' = None \<or> subscriber scr' = Some 0"
  using assms
  by (cases e)
    (auto simp add: commit_keeps initial_state_def split: option.splits sum.splits if_splits)

lemma run_subscriber:
  assumes "run isAvailable scr es = Inr scr'"
    and "subscriber scr = None \<or> subscriber scr = Some 0"
  shows "subscriber scr' = None \<or> subscriber scr' = Some 0"
  using assms
proof (induction es arbitrary: scr)
  case Nil
  then show ?case by simp
next
  case (Cons e es)
  from Cons.prems(1) obtain scr1 where s1: "step isAvailable scr e = Inr scr1"
    and r1: "run isAvailable scr1 es = Inr scr'"
    by (auto split: sum.splits)
  from step_subscriber [OF s1 Cons.prems(2)] Cons.IH [OF r1] show ?case by blast
qed

lemma mounted_subscriber:
  "run isAvailable mount es = Inr scr \<Longrightarrow> subscriber scr = None \<or> subscriber scr = Some 0"
  using run_subscriber [of isAvailable mount es scr] by (simp add: mount_def)

lemma listener_threshold:
  assumes "subscriber scr = Some 0"
  shows "step isAvailable scr (DeviceMotionUpdate \<lparr>rotation = Some \<lparr>beta = b\<rparr>\<rparr>)
       = Inr (if \<bar>(b * 180) / pi\<bar> \<ge> 1
              then commit ((state scr)\<lparr>theta := (b * 180) / pi\<rparr>) scr
              else scr)"
  using assms by (simp add: motion_listener_def commit_same)

text \<open>
  Claim C3 says the new angle is compared with the stored tilt angle. A run of the code:
  the sensor is available, a first reading of \<open>pi / 4\<close> radians stores 45 degrees. A second
  reading of 45.5 degrees is then stored, and the flux effect runs again, although it differs
  from the stored 45 by half a degree. A second reading of 0.5 degrees instead is dropped,
  although it differs from the stored 45 by 44.5 degrees.
\<close>

theorem listener_compares_with_first_render:
  "\<exists>scr1 scr2.
     run True mount
       [AvailabilityResolved, DeviceMotionUpdate \<lparr>rotation = Some \<lparr>beta = pi / 4\<rparr>\<rparr>]
       = Inr scr1
     \<and> theta (state scr1) = 45
     \<and> step True scr1 (DeviceMotionUpdate \<lparr>rotation = Some \<lparr>beta = 91 * pi / 360\<rparr>\<rparr>)
       = Inr scr2
     \<and> theta (state scr2) = 91 / 2
     \<and> \<bar>91 / 2 - theta (state scr1)\<bar> < 1
     \<and> flux_runs scr2 = Suc (flux_runs scr1)
     \<and> step True scr1 (DeviceMotionUpdate \<lparr>rotation = Some \<lparr>beta = pi / 360\<rparr>\<rparr>)
       = Inr scr1
     \<and> \<bar>1 / 2 - theta (state scr1)\<bar> \<ge> 1"
  by (simp add: mount_def motion_listener_def commit_def flux_effect_def initial_state_def)

end
